theory Spec2Isabelle
  imports Main "HOL-Library.Sublist" "HOL-Library.AList" "HOL-Library.Multiset"
begin

section \<open>Research paper processor: a shallow embedding of \<^verbatim>\<open>pdf_processor.py\<close>\<close>

text \<open>
  The development follows \<^verbatim>\<open>ResearchPaperProcessor\<close> method by method. The PDF
  loader, the text splitter, the Chroma collection, the retrieval chain, the chat
  completion client, the clock, the upload directory and the JSON codec are libraries and
  services outside the repository: each is a field of the record \<open>env\<close>, a function from
  the call's arguments to either the value returned or the message of the exception
  raised (\<open>Inl\<close>, the text of \<^verbatim>\<open>str(e)\<close>). Logging is left out: it changes no state and no
  result.
\<close>

subsection \<open>Strings\<close>

text \<open>
  Text is modelled as ASCII: a \<open>string\<close> is a list of 8-bit characters, \<^verbatim>\<open>lower()\<close>
  maps \<^verbatim>\<open>A-Z\<close> to \<^verbatim>\<open>a-z\<close> and leaves every other character alone, and the white space of
  \<^verbatim>\<open>split()\<close> is the ASCII white space of Python (codes 9 to 13, 28 to 31 and 32).
\<close>

definition is_space :: "char \<Rightarrow> bool" where
  "is_space c = ((of_char c :: nat) \<in> {9, 10, 11, 12, 13, 28, 29, 30, 31, 32})"

definition char_lower :: "char \<Rightarrow> char" where
  "char_lower c =
     (let n = (of_char c :: nat) in if 65 \<le> n \<and> n \<le> 90 then char_of (n + 32) else c)"

definition str_lower :: "string \<Rightarrow> string" where
  "str_lower s = map char_lower s"

text \<open>\<^verbatim>\<open>s.split()\<close>: the maximal runs of non-space characters, in order; \<open>w\<close> is the run
  being read.\<close>

fun split_from :: "string \<Rightarrow> string \<Rightarrow> string list" where
  "split_from w [] = (if w = [] then [] else [w])"
| "split_from w (c # cs) =
     (if is_space c then (if w = [] then split_from [] cs else w # split_from [] cs)
      else split_from (w @ [c]) cs)"

definition str_split :: "string \<Rightarrow> string list" where
  "str_split s = split_from [] s"

text \<open>\<^verbatim>\<open>s.count(sub)\<close>: the number of non-overlapping occurrences of \<open>sub\<close> in \<open>s\<close>, read
  from the left; for the empty \<open>sub\<close> Python answers \<^verbatim>\<open>len(s) + 1\<close>.\<close>

function str_count :: "string \<Rightarrow> string \<Rightarrow> nat" where
  "str_count s sub =
     (if sub = [] then length s + 1
      else if s = [] then 0
      else if prefix sub s then 1 + str_count (drop (length sub) s) sub
      else str_count (tl s) sub)"
  by pat_completeness auto
termination
  by (relation "measure (\<lambda>(s, sub). length s)") auto

declare str_count.simps [simp del]

text \<open>\<^verbatim>\<open>sub in s\<close>.\<close>

fun str_contains :: "string \<Rightarrow> string \<Rightarrow> bool" where
  "str_contains [] sub = (sub = [])"
| "str_contains (c # cs) sub = (prefix sub (c # cs) \<or> str_contains cs sub)"

text \<open>\<^verbatim>\<open>sep.join(xs)\<close>.\<close>

fun str_join :: "string \<Rightarrow> string list \<Rightarrow> string" where
  "str_join sep [] = []"
| "str_join sep [x] = x"
| "str_join sep (x # y # ys) = x @ sep @ str_join sep (y # ys)"

text \<open>\<^verbatim>\<open>str(n)\<close> for a non-negative integer.\<close>

fun str_of_nat :: "nat \<Rightarrow> string" where
  "str_of_nat n =
     (if n < 10 then [char_of (48 + n)]
      else str_of_nat (n div 10) @ [char_of (48 + n mod 10)])"

declare str_of_nat.simps [simp del]

definition newline :: string where
  "newline = [CHR 0x0A]"

subsection \<open>Data\<close>

text \<open>A LangChain \<^verbatim>\<open>Document\<close>: the text and the three metadata keys the processor
  writes and reads (\<open>None\<close>: the key is absent).\<close>

record document =
  page_content :: string
  md_source :: "string option"
  md_chunk_id :: "nat option"
  md_file_type :: "string option"

text \<open>One value of the dictionary \<^verbatim>\<open>processed_papers\<close>.\<close>

record paper_info =
  processed_at :: string
  chunks_processed :: nat
  total_characters :: nat
  status :: string

text \<open>\<^verbatim>\<open>processed_papers\<close> is a Python dictionary, which iterates in insertion order:
  an association list whose keys are the file names. \<^verbatim>\<open>d[k] = v\<close> is \<^const>\<open>AList.update\<close>:
  an existing key keeps its place, a new key goes to the end.\<close>

type_synonym ledger = "(string \<times> paper_info) list"

text \<open>The dictionary returned by \<^verbatim>\<open>process_pdf\<close>: \<^verbatim>\<open>status\<close> is \<^verbatim>\<open>"success"\<close> with the file
  name, the number of chunks and of characters, or \<^verbatim>\<open>"error"\<close> with the file name and the
  message.\<close>

datatype process_result =
  ProcessSuccess string nat nat
| ProcessError string string

text \<open>The dictionary returned by \<^verbatim>\<open>reprocess_all_papers\<close>: \<^verbatim>\<open>"completed"\<close> with
  \<^verbatim>\<open>total_files\<close> and \<^verbatim>\<open>results\<close>, or \<^verbatim>\<open>"error"\<close> with the message.\<close>

datatype reprocess_result =
  ReprocessCompleted nat "process_result list"
| ReprocessError string

text \<open>An entry of \<^verbatim>\<open>relevant_papers\<close> in the keyword search.\<close>

record relevant_paper =
  filename :: string
  relevance_score :: nat
  content :: string

text \<open>An entry of \<^verbatim>\<open>sources\<close>; its key \<^verbatim>\<open>content\<close> is the field \<open>snippet\<close> here, and the
  two links are present only in the citations of the keyword search.\<close>

record citation =
  snippet :: string
  source :: string
  chunk_id :: nat
  pdf_link :: "string option"
  summary_link :: "string option"

record query_result =
  answer :: string
  sources :: "citation list"
  question :: string

text \<open>The dictionary returned by \<^verbatim>\<open>get_paper_summary\<close> (keys \<^verbatim>\<open>filename\<close>, \<^verbatim>\<open>summary\<close>,
  \<^verbatim>\<open>sources\<close>).\<close>

record summary_result =
  summary_filename :: string
  summary :: string
  summary_sources :: "citation list"

text \<open>What the retrieval chain returns: a dictionary in which the keys \<^verbatim>\<open>result\<close> and
  \<^verbatim>\<open>source_documents\<close> may be present.\<close>

record qa_output =
  qa_result :: "string option"
  source_documents :: "document list option"

text \<open>A chat completion request: the model, the system and the user message and
  \<^verbatim>\<open>max_tokens\<close> (the temperature is the constant 0.3 at every call).\<close>

record chat_request =
  chat_model :: string
  system_content :: string
  user_content :: string
  max_tokens :: nat

subsection \<open>The world outside the repository\<close>

record env =
  now_isoformat :: string
  pdf_files :: "string list"
  path_exists :: "string \<Rightarrow> bool"
  pdf_load :: "string \<Rightarrow> string + document list"
  split_documents :: "document list \<Rightarrow> string + document list"
  add_documents :: "document list \<Rightarrow> string option"
  delete_collection :: "string option"
  chroma_init :: "nat \<Rightarrow> string option"
  qa_chain_init :: "nat \<Rightarrow> string option"
  qa_chain_call :: "document list \<Rightarrow> string \<Rightarrow> string + qa_output"
  openai_client :: "string option"
  chat_completions_create :: "chat_request \<Rightarrow> string + string"
  open_write :: "string option"
  json_dumps :: "ledger \<Rightarrow> string"
  json_decode :: "string \<Rightarrow> string + ledger"
  admin_token :: string
  public_token :: string

text \<open>
  \<^item> \<open>now_isoformat\<close>: \<^verbatim>\<open>datetime.now().isoformat()\<close>;
  \<^item> \<open>pdf_files\<close>: the names of \<^verbatim>\<open>upload_dir.glob("*.pdf")\<close>, in the order of the listing;
    a path under the upload directory is modelled by its file name throughout;
  \<^item> \<open>path_exists\<close>, \<open>pdf_load\<close>: \<^verbatim>\<open>(upload_dir / name).exists()\<close> and
    \<^verbatim>\<open>PyPDFLoader(path).load()\<close>, one document per page;
  \<^item> \<open>split_documents\<close>: the \<^verbatim>\<open>RecursiveCharacterTextSplitter\<close>;
  \<^item> \<open>add_documents\<close>: \<open>Some e\<close> when \<^verbatim>\<open>vectorstore.add_documents\<close> raises \<open>e\<close> (nothing is
    stored then), \<open>None\<close> when the chunks are appended to the collection;
  \<^item> \<open>delete_collection\<close>: \<open>Some e\<close> when \<^verbatim>\<open>vectorstore.delete_collection()\<close> raises;
  \<^item> \<open>chroma_init k\<close>, \<open>qa_chain_init k\<close>: the outcome of building the Chroma handle and
    the retrieval chain in the \<open>k\<close>-th run of \<^verbatim>\<open>_initialize_vectorstore\<close> within one call;
  \<^item> \<open>qa_chain_call\<close>: \<^verbatim>\<open>qa_chain({"query": question})\<close> over the current collection;
  \<^item> \<open>openai_client\<close>: \<open>Some e\<close> when importing or constructing the client raises;
  \<^item> \<open>chat_completions_create\<close>: the text of the first choice, or the exception;
  \<^item> \<open>open_write\<close>: \<open>Some e\<close> when opening the ledger file for writing raises;
  \<^item> \<open>json_dumps\<close>, \<open>json_decode\<close>: \<^verbatim>\<open>json.dump(..., indent=2)\<close> and the JSON parser;
  \<^item> \<open>admin_token\<close>, \<open>public_token\<close>: the two bearer tokens of \<^verbatim>\<open>main.py\<close>.
\<close>

subsection \<open>The processor's state\<close>

text \<open>\<open>vectorstore\<close> and \<open>qa_chain\<close> say whether the attribute is set (not
  \<^verbatim>\<open>None\<close>); \<open>collection\<close> is the content of the persistent Chroma collection
  \<^verbatim>\<open>research_papers\<close>, and \<open>ledger_file\<close> the content of \<^verbatim>\<open>processed_papers.json\<close>
  (\<open>None\<close>: no such file).\<close>

record processor =
  processed_papers :: ledger
  vectorstore :: bool
  qa_chain :: bool
  collection :: "document list"
  ledger_file :: "string option"

subsection \<open>The ledger file\<close>

text \<open>\<^verbatim>\<open>json.load\<close> rejects the empty document (\<^verbatim>\<open>Expecting value\<close>); every other text is
  left to the parser of the environment.\<close>

definition json_load :: "env \<Rightarrow> string \<Rightarrow> string + ledger" where
  "json_load env text =
     (if text = [] then Inl ''Expecting value: line 1 column 1 (char 0)''
      else json_decode env text)"

text \<open>\<^verbatim>\<open>_load_processed_papers\<close>: the empty dictionary when the file is absent or does
  not parse.\<close>

definition load_processed_papers :: "env \<Rightarrow> string option \<Rightarrow> ledger" where
  "load_processed_papers env file =
     (case file of
        None \<Rightarrow> []
      | Some text \<Rightarrow> (case json_load env text of Inl e \<Rightarrow> [] | Inr d \<Rightarrow> d))"

text \<open>\<^verbatim>\<open>_save_processed_papers\<close>: \<^verbatim>\<open>open(file, 'w')\<close> and \<^verbatim>\<open>json.dump\<close> into the ledger
  file itself; an exception is logged and swallowed.\<close>

definition save_processed_papers :: "env \<Rightarrow> processor \<Rightarrow> processor" where
  "save_processed_papers env s =
     (case open_write env of
        Some e \<Rightarrow> s
      | None \<Rightarrow> s\<lparr>ledger_file := Some (json_dumps env (processed_papers s))\<rparr>)"

text \<open>
  The ledger file while one \<^verbatim>\<open>_save_processed_papers\<close> runs: \<^verbatim>\<open>open(file, 'w')\<close>
  truncates the file in place, then \<^verbatim>\<open>json.dump\<close> writes the new text from left to
  right. \<open>crash_in_save env k s\<close> is the file once \<open>k\<close> characters are written, which is
  what a process that dies at that moment leaves behind.
\<close>

definition crash_in_save :: "env \<Rightarrow> nat \<Rightarrow> processor \<Rightarrow> string option" where
  "crash_in_save env k s =
     (case open_write env of
        Some e \<Rightarrow> ledger_file s
      | None \<Rightarrow> Some (take k (json_dumps env (processed_papers s))))"

subsection \<open>\<^verbatim>\<open>_initialize_vectorstore\<close>\<close>

definition initialize_vectorstore :: "env \<Rightarrow> nat \<Rightarrow> processor \<Rightarrow> processor" where
  "initialize_vectorstore env k s =
     (case chroma_init env k of
        Some e \<Rightarrow> s\<lparr>vectorstore := False, qa_chain := False\<rparr>
      | None \<Rightarrow>
          (case qa_chain_init env k of
             Some e \<Rightarrow> s\<lparr>vectorstore := False, qa_chain := False\<rparr>
           | None \<Rightarrow> s\<lparr>vectorstore := True, qa_chain := True\<rparr>))"

subsection \<open>\<^verbatim>\<open>process_pdf\<close>\<close>

text \<open>The metadata loop: \<^verbatim>\<open>text.metadata.update({"source": file_path.name,
  "chunk_id": i, "file_type": "pdf"})\<close> for \<^verbatim>\<open>i, text in enumerate(texts)\<close>.\<close>

definition add_metadata :: "string \<Rightarrow> document list \<Rightarrow> document list" where
  "add_metadata name texts =
     map (\<lambda>(i, text). text\<lparr>md_source := Some name, md_chunk_id := Some i,
                             md_file_type := Some ''pdf''\<rparr>)
       (enumerate 0 texts)"

definition total_chars :: "document list \<Rightarrow> nat" where
  "total_chars texts = sum_list (map (\<lambda>text. length (page_content text)) texts)"

text \<open>The whole body is inside one \<^verbatim>\<open>try\<close>; the handler returns the error dictionary
  and touches neither \<^verbatim>\<open>processed_papers\<close> nor the ledger file.\<close>

definition process_pdf :: "env \<Rightarrow> string \<Rightarrow> processor \<Rightarrow> processor \<times> process_result" where
  "process_pdf env name s =
     (case pdf_load env name of
        Inl e \<Rightarrow> (s, ProcessError name e)
      | Inr documents \<Rightarrow>
          (case split_documents env documents of
             Inl e \<Rightarrow> (s, ProcessError name e)
           | Inr chunks \<Rightarrow>
               (let texts = add_metadata name chunks in
                case (if vectorstore s then add_documents env texts else None) of
                  Some e \<Rightarrow> (s, ProcessError name e)
                | None \<Rightarrow>
                    (let s1 = (if vectorstore s then s\<lparr>collection := collection s @ texts\<rparr> else s);
                         s2 = s1\<lparr>processed_papers :=
                                  AList.update name
                                    \<lparr>processed_at = now_isoformat env,
                                     chunks_processed = length texts,
                                     total_characters = total_chars texts,
                                     status = ''processed''\<rparr>
                                    (processed_papers s1)\<rparr>;
                         s3 = save_processed_papers env s2
                     in (s3, ProcessSuccess name (length texts) (total_chars texts))))))"

subsection \<open>\<^verbatim>\<open>reprocess_all_papers\<close>\<close>

text \<open>The loop \<^verbatim>\<open>for pdf_file in pdf_files: results.append(self.process_pdf(pdf_file))\<close>.\<close>

fun process_files :: "env \<Rightarrow> string list \<Rightarrow> processor \<Rightarrow> processor \<times> process_result list" where
  "process_files env [] s = (s, [])"
| "process_files env (f # fs) s =
     (case process_pdf env f s of
        (s1, r) \<Rightarrow> (case process_files env fs s1 of (s2, rs) \<Rightarrow> (s2, r # rs)))"

definition reprocess_all_papers :: "env \<Rightarrow> processor \<Rightarrow> processor \<times> reprocess_result" where
  "reprocess_all_papers env s =
     (case (if vectorstore s then delete_collection env else None) of
        Some e \<Rightarrow> (s, ReprocessError e)
      | None \<Rightarrow>
          (let s1 = (if vectorstore s then s\<lparr>collection := []\<rparr> else s);
               s2 = save_processed_papers env (s1\<lparr>processed_papers := []\<rparr>);
               s3 = initialize_vectorstore env 0 s2
           in case process_files env (pdf_files env) s3 of
                (s4, results) \<Rightarrow>
                  (let s5 = (if \<not> vectorstore s4 then initialize_vectorstore env 1 s4 else s4)
                   in (s5, ReprocessCompleted (length (pdf_files env)) results))))"

subsection \<open>\<^verbatim>\<open>query_papers\<close>: the retrieval chain\<close>

text \<open>One citation per source document: \<^verbatim>\<open>page_content[:200] + "..."\<close>,
  \<^verbatim>\<open>metadata.get("source", "Unknown")\<close> and \<^verbatim>\<open>metadata.get("chunk_id", 0)\<close>.\<close>

definition doc_citation :: "document \<Rightarrow> citation" where
  "doc_citation doc =
     \<lparr>snippet = take 200 (page_content doc) @ ''...'',
      source = (case md_source doc of None \<Rightarrow> ''Unknown'' | Some n \<Rightarrow> n),
      chunk_id = (case md_chunk_id doc of None \<Rightarrow> 0 | Some i \<Rightarrow> i),
      pdf_link = None,
      summary_link = None\<rparr>"

text \<open>The outer handler of \<^verbatim>\<open>query_papers\<close>.\<close>

definition query_error :: "string \<Rightarrow> string \<Rightarrow> query_result" where
  "query_error e q =
     \<lparr>answer = ''Error processing query: '' @ e, sources = [], question = q\<rparr>"

text \<open>The handler around the keyword search and its completion call.\<close>

definition fallback_error :: "string \<Rightarrow> string \<Rightarrow> query_result" where
  "fallback_error e q =
     \<lparr>answer = ''I'm sorry, I'm having trouble accessing the research papers right now. Please try again later. Error: '' @ e,
      sources = [], question = q\<rparr>"

subsection \<open>\<^verbatim>\<open>query_papers\<close>: the keyword search\<close>

definition xyy_terms :: "string list" where
  "xyy_terms = [''xyy'', ''47,xyy'', ''jacob'', ''syndrome'', ''trisomy'', ''chromosome'']"

text \<open>The two scoring loops over \<^verbatim>\<open>content_lower\<close>, with their \<^verbatim>\<open>if term in
  content_lower\<close> guards.\<close>

fun add_term_counts :: "string \<Rightarrow> string list \<Rightarrow> nat \<Rightarrow> nat" where
  "add_term_counts content_lower [] score = score"
| "add_term_counts content_lower (t # ts) score =
     add_term_counts content_lower ts
       (if str_contains content_lower t then score + str_count content_lower t else score)"

fun add_xyy_counts :: "string \<Rightarrow> string list \<Rightarrow> nat \<Rightarrow> nat" where
  "add_xyy_counts content_lower [] score = score"
| "add_xyy_counts content_lower (t # ts) score =
     add_xyy_counts content_lower ts
       (if str_contains content_lower t then score + str_count content_lower t * 2 else score)"

definition relevance :: "string list \<Rightarrow> string \<Rightarrow> nat" where
  "relevance search_terms paper_content =
     (let content_lower = str_lower paper_content
      in add_xyy_counts content_lower xyy_terms (add_term_counts content_lower search_terms 0))"

text \<open>One round of the loop over \<^verbatim>\<open>processed_papers.items()\<close>: the entry appended to
  \<^verbatim>\<open>relevant_papers\<close>, if any. An exception of the loader is caught inside the round
  (\<^verbatim>\<open>continue\<close>).\<close>

definition score_paper :: "env \<Rightarrow> string list \<Rightarrow> string \<times> paper_info \<Rightarrow> relevant_paper option" where
  "score_paper env search_terms item =
     (case item of (name, info) \<Rightarrow>
        if status info = ''processed'' then
          if path_exists env name then
            (case pdf_load env name of
               Inl e \<Rightarrow> None
             | Inr documents \<Rightarrow>
                 (let paper_content = str_join newline (map page_content documents);
                      score = relevance search_terms paper_content
                  in if score > 0
                     then Some \<lparr>filename = name, relevance_score = score,
                                content = (if length paper_content > 2000
                                           then take 2000 paper_content @ ''...''
                                           else paper_content)\<rparr>
                     else None))
          else None
        else None)"

fun search_papers :: "env \<Rightarrow> string list \<Rightarrow> ledger \<Rightarrow> relevant_paper list" where
  "search_papers env search_terms [] = []"
| "search_papers env search_terms (item # items) =
     (case score_paper env search_terms item of
        None \<Rightarrow> search_papers env search_terms items
      | Some p \<Rightarrow> p # search_papers env search_terms items)"

text \<open>\<^verbatim>\<open>relevant_papers.sort(key=lambda x: x["relevance_score"], reverse=True)\<close>: Python's
  sort is stable, also with \<^verbatim>\<open>reverse=True\<close>; here the stable insertion sort of the
  library on the negated score.\<close>

definition sort_by_relevance :: "relevant_paper list \<Rightarrow> relevant_paper list" where
  "sort_by_relevance ps = sort_key (\<lambda>p. - int (relevance_score p)) ps"

definition top_papers :: "env \<Rightarrow> processor \<Rightarrow> string \<Rightarrow> relevant_paper list" where
  "top_papers env s q =
     take 3 (sort_by_relevance
       (search_papers env (str_split (str_lower q)) (processed_papers s)))"

text \<open>The loop \<^verbatim>\<open>for i, paper in enumerate(top_papers)\<close>: the context part and the
  citation of the paper at position \<open>i\<close>, and then the loop that copies each citation
  and adds the two links.\<close>

definition context_part :: "nat \<times> relevant_paper \<Rightarrow> string" where
  "context_part ip =
     (case ip of (i, paper) \<Rightarrow>
        ''Paper '' @ str_of_nat (i + 1) @ '': '' @ filename paper @ newline
        @ ''Content: '' @ content paper @ newline)"

definition paper_source :: "nat \<times> relevant_paper \<Rightarrow> citation" where
  "paper_source ip =
     (case ip of (i, paper) \<Rightarrow>
        \<lparr>snippet = take 200 (content paper) @ ''...'',
         source = filename paper,
         chunk_id = i,
         pdf_link = None,
         summary_link = None\<rparr>)"

definition enhance_source :: "citation \<Rightarrow> citation" where
  "enhance_source src =
     \<lparr>snippet = snippet src,
      source = source src,
      chunk_id = chunk_id src,
      pdf_link = Some (''/paper/'' @ source src),
      summary_link = Some (''/paper/'' @ source src @ ''/summary'')\<rparr>"

definition papers_request :: "relevant_paper list \<Rightarrow> string \<Rightarrow> chat_request" where
  "papers_request candidates q =
     (let context_text = str_join newline (map context_part (enumerate 0 candidates))
      in \<lparr>chat_model = ''gpt-3.5-turbo'',
          system_content =
            ''You are a research assistant. Answer the user's question based on the following research papers about XYY syndrome. Always cite the specific papers you reference using their filenames. Be specific and accurate.''
            @ newline @ newline @ ''Research Papers:'' @ newline @ context_text,
          user_content = q,
          max_tokens = 600\<rparr>)"

definition general_request :: "string \<Rightarrow> chat_request" where
  "general_request q =
     \<lparr>chat_model = ''gpt-3.5-turbo'',
      system_content =
        ''You are a research assistant helping users find information about XYY syndrome. Provide helpful information based on your knowledge, but mention that you have access to a collection of research papers that may contain more specific information.'',
      user_content = q,
      max_tokens = 500\<rparr>"

definition general_source :: citation where
  "general_source =
     \<lparr>snippet = ''General knowledge about XYY syndrome'',
      source = ''AI Knowledge Base'',
      chunk_id = 0,
      pdf_link = None,
      summary_link = None\<rparr>"


text \<open>The inner \<^verbatim>\<open>try\<close> of \<^verbatim>\<open>query_papers\<close>, from the construction of the client on.\<close>

definition fallback_search :: "env \<Rightarrow> processor \<Rightarrow> string \<Rightarrow> query_result" where
  "fallback_search env s q =
     (case openai_client env of
        Some e \<Rightarrow> fallback_error e q
      | None \<Rightarrow>
          (let candidates = top_papers env s q
           in if candidates \<noteq> [] then
                (let srcs = map paper_source (enumerate 0 candidates)
                 in case chat_completions_create env (papers_request candidates q) of
                      Inl e \<Rightarrow> fallback_error e q
                    | Inr a \<Rightarrow>
                        \<lparr>answer = a, sources = map enhance_source srcs, question = q\<rparr>)
              else
                (case chat_completions_create env (general_request q) of
                   Inl e \<Rightarrow> fallback_error e q
                 | Inr a \<Rightarrow> \<lparr>answer = a, sources = [general_source], question = q\<rparr>)))"

subsection \<open>\<^verbatim>\<open>query_papers\<close>\<close>

text \<open>The chain is asked when both attributes are set. Its answer is returned whenever
  the key \<^verbatim>\<open>source_documents\<close> is in the result, with one citation per document; a
  missing key \<^verbatim>\<open>result\<close> is a \<^verbatim>\<open>KeyError\<close>, and that or an exception of the chain itself
  reaches the outer handler.\<close>

definition query_papers :: "env \<Rightarrow> processor \<Rightarrow> string \<Rightarrow> query_result" where
  "query_papers env s q =
     (if qa_chain s \<and> vectorstore s then
        (case qa_chain_call env (collection s) q of
           Inl e \<Rightarrow> query_error e q
         | Inr result \<Rightarrow>
             (case source_documents result of
                Some docs \<Rightarrow>
                  (case qa_result result of
                     None \<Rightarrow> query_error ([CHR 0x27] @ ''result'' @ [CHR 0x27]) q
                   | Some a \<Rightarrow> \<lparr>answer = a, sources = map doc_citation docs, question = q\<rparr>)
              | None \<Rightarrow> fallback_search env s q))
      else fallback_search env s q)"

subsection \<open>\<^verbatim>\<open>get_paper_summary\<close> and its route\<close>

definition summary_query :: "string \<Rightarrow> string" where
  "summary_query name =
     ''Provide a comprehensive summary of the research paper '' @ name
     @ ''. Include the main research question, methodology, key findings, and conclusions.''"

definition summary_request :: "string \<Rightarrow> chat_request" where
  "summary_request text_content =
     \<lparr>chat_model = ''gpt-3.5-turbo'',
      system_content = ''You are a research assistant. Provide a comprehensive summary of research papers.'',
      user_content = ''Please provide a comprehensive summary of this research paper:''
                     @ newline @ newline @ text_content,
      max_tokens = 500\<rparr>"

text \<open>The second \<^verbatim>\<open>try\<close> of \<^verbatim>\<open>get_paper_summary\<close>: a completion over the paper's own
  text.\<close>

definition direct_summary :: "env \<Rightarrow> string \<Rightarrow> summary_result" where
  "direct_summary env name =
     (let failed = (\<lambda>e. \<lparr>summary_filename = name,
                          summary = ''Unable to generate summary: '' @ e,
                          summary_sources = []\<rparr>)
      in case openai_client env of
           Some e \<Rightarrow> failed e
         | None \<Rightarrow>
             if path_exists env name then
               (case pdf_load env name of
                  Inl e \<Rightarrow> failed e
                | Inr documents \<Rightarrow>
                    (let full = str_join newline (map page_content documents);
                         text_content = (if length full > 4000 then take 4000 full @ ''...'' else full)
                     in case chat_completions_create env (summary_request text_content) of
                          Inl e \<Rightarrow> failed e
                        | Inr a \<Rightarrow>
                            \<lparr>summary_filename = name,
                             summary = a,
                             summary_sources =
                               [\<lparr>snippet = ''Summary generated from full paper content'',
                                 source = name, chunk_id = 0,
                                 pdf_link = None, summary_link = None\<rparr>]\<rparr>))
             else \<lparr>summary_filename = name,
                   summary = ''Paper file not found.'',
                   summary_sources = []\<rparr>)"

definition get_paper_summary :: "env \<Rightarrow> processor \<Rightarrow> string \<Rightarrow> summary_result" where
  "get_paper_summary env s name =
     (if name \<notin> fst ` set (processed_papers s) then
        \<lparr>summary_filename = name,
         summary = ''Paper not found or not processed yet.'',
         summary_sources = []\<rparr>
      else if vectorstore s \<and> qa_chain s
              \<and> sources (query_papers env s (summary_query name)) \<noteq> [] then
        (let result = query_papers env s (summary_query name)
         in \<lparr>summary_filename = name,
             summary = answer result,
             summary_sources = sources result\<rparr>)
      else direct_summary env name)"

text \<open>The route \<^verbatim>\<open>GET /paper/{filename}/summary\<close> of \<^verbatim>\<open>main.py\<close>: \<^verbatim>\<open>verify_token\<close>, then
  the processor's dictionary as the body of a normal (200) response; an exception while
  the processor is obtained (\<open>Inl e\<close>) becomes a 500.\<close>

datatype http_response =
  Response200 summary_result
| HTTPException nat string

definition summary_route ::
  "env \<Rightarrow> string + processor \<Rightarrow> string \<Rightarrow> string \<Rightarrow> http_response" where
  "summary_route env get_paper_processor credentials name =
     (if credentials \<noteq> admin_token env \<and> credentials \<noteq> public_token env then
        HTTPException 401 ''Invalid authentication token''
      else
        (case get_paper_processor of
           Inl e \<Rightarrow> HTTPException 500 (''Error getting paper summary: '' @ e)
         | Inr s \<Rightarrow> Response200 (get_paper_summary env s name)))"

subsection \<open>The relevance score in the words of the specification\<close>

text \<open>The sum over the question's terms of the term's occurrence count in the lower-cased
  paper text, plus twice the occurrence count of each term of the bonus vocabulary.\<close>

definition spec_relevance_score :: "string list \<Rightarrow> string list \<Rightarrow> string \<Rightarrow> nat" where
  "spec_relevance_score bonus terms text =
     (\<Sum>t\<leftarrow>terms. str_count text t) + (\<Sum>t\<leftarrow>bonus. 2 * str_count text t)"

subsection \<open>What one file contributes to a reprocessing run\<close>

text \<open>\<open>file_texts\<close> is what the loader, the splitter and the metadata loop of
  \<^verbatim>\<open>process_pdf\<close> make of a file, \<open>process_ok env vs name\<close> says that \<^verbatim>\<open>process_pdf\<close>
  reaches its \<^verbatim>\<open>return\<close> of a success for the file when the vector store is set (\<open>vs\<close>) or
  not, and \<open>indexed_texts\<close> are the chunks it then hands to the vector store.\<close>

definition file_texts :: "env \<Rightarrow> string \<Rightarrow> string + document list" where
  "file_texts env name =
     (case pdf_load env name of
        Inl e \<Rightarrow> Inl e
      | Inr documents \<Rightarrow>
          (case split_documents env documents of
             Inl e \<Rightarrow> Inl e
           | Inr chunks \<Rightarrow> Inr (add_metadata name chunks)))"

definition process_ok :: "env \<Rightarrow> bool \<Rightarrow> string \<Rightarrow> bool" where
  "process_ok env vs name =
     (case file_texts env name of
        Inl e \<Rightarrow> False
      | Inr texts \<Rightarrow> (if vs then add_documents env texts = None else True))"

definition indexed_texts :: "env \<Rightarrow> string \<Rightarrow> document list" where
  "indexed_texts env name = (case file_texts env name of Inl e \<Rightarrow> [] | Inr texts \<Rightarrow> texts)"

subsection \<open>A sample corpus\<close>

text \<open>Six files in the upload directory, one of which the loader rejects; a ledger that
  lists all six as processed; a stand-in for the JSON codec that maps the ledger to a text
  and that text back. \<open>demo_processor\<close> has no vector store but a collection left on disk,
  \<open>demo_indexed\<close> has a vector store with an empty collection, \<open>demo_stale\<close> a vector
  store whose collection holds a chunk of an earlier run, \<open>demo_empty\<close> is a fresh
  processor, and in \<open>down_env\<close> the completion provider cannot be reached.\<close>

definition demo_doc :: "string \<Rightarrow> document" where
  "demo_doc text = \<lparr>page_content = text, md_source = None, md_chunk_id = None, md_file_type = None\<rparr>"

definition demo_info :: paper_info where
  "demo_info = \<lparr>processed_at = ''2024-05-01T10:00:00'', chunks_processed = 1,
                 total_characters = 12, status = ''processed''\<rparr>"

definition demo_ledger :: ledger where
  "demo_ledger = [(''b.pdf'', demo_info), (''bad.pdf'', demo_info), (''a.pdf'', demo_info),
                  (''d.pdf'', demo_info), (''e.pdf'', demo_info), (''c.pdf'', demo_info)]"

definition demo_dumps :: "ledger \<Rightarrow> string" where
  "demo_dumps d = ''{'' @ str_join '', '' (map fst d) @ ''}''"

definition demo_env :: env where
  "demo_env =
     \<lparr>now_isoformat = ''2024-05-01T10:00:00'',
      pdf_files = [''b.pdf'', ''bad.pdf'', ''a.pdf'', ''d.pdf'', ''e.pdf'', ''c.pdf''],
      path_exists = (\<lambda>name. name \<in> set [''b.pdf'', ''bad.pdf'', ''a.pdf'', ''d.pdf'', ''e.pdf'', ''c.pdf'']),
      pdf_load = (\<lambda>name.
        if name = ''a.pdf'' then Inr [demo_doc ''xyy SYNDROME'']
        else if name = ''b.pdf'' then Inr [demo_doc ''XYY syndrome'']
        else if name = ''c.pdf'' then Inr [demo_doc ''xyy xyy'', demo_doc ''syndrome trisomy'']
        else if name = ''d.pdf'' then Inr [demo_doc ''cooking recipes'']
        else if name = ''e.pdf'' then Inr [demo_doc ''xyy'']
        else Inl ''EOF marker not found''),
      split_documents = (\<lambda>docs. Inr docs),
      add_documents = (\<lambda>texts. None),
      delete_collection = None,
      chroma_init = (\<lambda>k. None),
      qa_chain_init = (\<lambda>k. None),
      qa_chain_call = (\<lambda>entries q.
        Inr \<lparr>qa_result = Some ''chain answer'', source_documents = Some (take 4 entries)\<rparr>),
      openai_client = None,
      chat_completions_create = (\<lambda>request. Inr ''model answer''),
      open_write = None,
      json_dumps = demo_dumps,
      json_decode = (\<lambda>text.
        if text = demo_dumps demo_ledger then Inr demo_ledger
        else if text = demo_dumps [] then Inr []
        else Inl ''Expecting property name enclosed in double quotes''),
      admin_token = ''admin123'',
      public_token = ''public123''\<rparr>"

definition demo_processor :: processor where
  "demo_processor =
     \<lparr>processed_papers = demo_ledger, vectorstore = False, qa_chain = False,
      collection = [demo_doc ''stale chunk''], ledger_file = Some (demo_dumps demo_ledger)\<rparr>"


definition demo_stale :: processor where
  "demo_stale =
     \<lparr>processed_papers = demo_ledger, vectorstore = True, qa_chain = True,
      collection = [demo_doc ''stale chunk''], ledger_file = Some (demo_dumps demo_ledger)\<rparr>"

definition demo_empty :: processor where
  "demo_empty =
     \<lparr>processed_papers = [], vectorstore = True, qa_chain = True,
      collection = [], ledger_file = None\<rparr>"


definition demo_question :: string where
  "demo_question = ''What is XYY syndrome''"

text \<open>A second corpus for ties at the cut: five papers in the ledger order \<^verbatim>\<open>z, x, y, w, v\<close>,
  of which \<^verbatim>\<open>x.pdf\<close> scores 6 on the sample question and the other four score 3 each.\<close>

definition tie_env :: env where
  "tie_env =
     demo_env\<lparr>pdf_files := [''z.pdf'', ''x.pdf'', ''y.pdf'', ''w.pdf'', ''v.pdf''],
               path_exists := (\<lambda>name. True),
               pdf_load := (\<lambda>name.
                 if name = ''x.pdf'' then Inr [demo_doc ''XYY syndrome'']
                 else if name \<in> set [''z.pdf'', ''y.pdf'', ''w.pdf'', ''v.pdf''] then Inr [demo_doc ''xyy'']
                 else Inl ''EOF marker not found'')\<rparr>"

definition tie_processor :: processor where
  "tie_processor =
     \<lparr>processed_papers = [(''z.pdf'', demo_info), (''x.pdf'', demo_info), (''y.pdf'', demo_info),
                          (''w.pdf'', demo_info), (''v.pdf'', demo_info)],
      vectorstore = False, qa_chain = False, collection = [], ledger_file = None\<rparr>"

section \<open>Auxiliary lemmas\<close>

lemma str_count_absent: "\<not> str_contains s sub \<Longrightarrow> str_count s sub = 0"
proof (induction s sub rule: str_count.induct)
  case (1 s sub)
  show ?case
  proof (cases s)
    case Nil
    with 1 show ?thesis by (simp add: str_count.simps)
  next
    case (Cons c cs)
    with 1 show ?thesis by (auto simp: str_count.simps[of "c # cs" sub])
  qed
qed

lemma add_term_counts_sum:
  "add_term_counts text ts n = n + (\<Sum>t\<leftarrow>ts. str_count text t)"
  by (induction ts arbitrary: n) (auto simp: str_count_absent)

lemma add_xyy_counts_sum:
  "add_xyy_counts text ts n = n + (\<Sum>t\<leftarrow>ts. 2 * str_count text t)"
  by (induction ts arbitrary: n) (auto simp: str_count_absent)

lemma relevance_spec:
  "relevance terms paper_content = spec_relevance_score xyy_terms terms (str_lower paper_content)"
  by (simp add: relevance_def Let_def spec_relevance_score_def add_term_counts_sum add_xyy_counts_sum)

lemma search_papers_append:
  "search_papers env terms (d1 @ d2) = search_papers env terms d1 @ search_papers env terms d2"
  by (induction d1) (auto split: option.splits)

lemma search_papers_set:
  "set (search_papers env terms d) = {p. \<exists>item \<in> set d. score_paper env terms item = Some p}"
  by (induction d) (auto split: option.splits)

lemma search_papers_names:
  "map filename (search_papers env terms d) =
     map fst (filter (\<lambda>item. score_paper env terms item \<noteq> None) d)"
proof (induction d)
  case Nil
  show ?case by simp
next
  case (Cons item d)
  obtain name info where item: "item = (name, info)" by (cases item)
  show ?case
  proof (cases "score_paper env terms item")
    case None
    with Cons show ?thesis by simp
  next
    case (Some p)
    then have "filename p = name"
      by (auto simp: score_paper_def item Let_def split: if_splits sum.splits)
    with Some Cons item show ?thesis by simp
  qed
qed

lemma score_paper_Some:
  "score_paper env terms (name, info) = Some p \<longleftrightarrow>
     status info = ''processed'' \<and> path_exists env name \<and>
     (\<exists>docs. pdf_load env name = Inr docs \<and>
        0 < relevance terms (str_join newline (map page_content docs)) \<and>
        p = \<lparr>filename = name,
             relevance_score = relevance terms (str_join newline (map page_content docs)),
             content = (if length (str_join newline (map page_content docs)) > 2000
                        then take 2000 (str_join newline (map page_content docs)) @ ''...''
                        else str_join newline (map page_content docs))\<rparr>)"
  by (auto simp: score_paper_def Let_def split: sum.splits)

lemma sort_by_relevance_sorted:
  "sorted_wrt (\<lambda>a b. relevance_score b \<le> relevance_score a) (sort_by_relevance ps)"
proof -
  have "sorted (map (\<lambda>p. - int (relevance_score p)) (sort_by_relevance ps))"
    by (simp add: sort_by_relevance_def)
  then show ?thesis
    by (simp add: sorted_map sorted_wrt_map)
qed

lemma sort_by_relevance_stable:
  "filter (\<lambda>p. relevance_score p = k) (sort_by_relevance ps) = filter (\<lambda>p. relevance_score p = k) ps"
proof -
  have "filter (\<lambda>p. - int (relevance_score p) = - int k) (sort_by_relevance ps)
        = filter (\<lambda>p. - int (relevance_score p) = - int k) ps"
    unfolding sort_by_relevance_def by (rule sort_key_stable)
  then show ?thesis by simp
qed

lemma fallback_search_cong:
  "top_papers env s q = top_papers env s' q \<Longrightarrow> fallback_search env s q = fallback_search env s' q"
  by (simp add: fallback_search_def split: option.splits)


lemma demo_terms: "str_split (str_lower demo_question) = [''what'', ''is'', ''xyy'', ''syndrome'']"
  by code_simp

lemma demo_relevant:
  "search_papers demo_env [''what'', ''is'', ''xyy'', ''syndrome''] demo_ledger =
     [\<lparr>filename = ''b.pdf'', relevance_score = 6, content = ''XYY syndrome''\<rparr>,
      \<lparr>filename = ''a.pdf'', relevance_score = 6, content = ''xyy SYNDROME''\<rparr>,
      \<lparr>filename = ''e.pdf'', relevance_score = 3, content = ''xyy''\<rparr>,
      \<lparr>filename = ''c.pdf'', relevance_score = 12,
        content = ''xyy xyy'' @ newline @ ''syndrome trisomy''\<rparr>]"
  by code_simp

lemma demo_top:
  "top_papers demo_env demo_processor demo_question =
     [\<lparr>filename = ''c.pdf'', relevance_score = 12,
        content = ''xyy xyy'' @ newline @ ''syndrome trisomy''\<rparr>,
      \<lparr>filename = ''b.pdf'', relevance_score = 6, content = ''XYY syndrome''\<rparr>,
      \<lparr>filename = ''a.pdf'', relevance_score = 6, content = ''xyy SYNDROME''\<rparr>]"
  by code_simp

lemma tie_relevant:
  "search_papers tie_env (str_split (str_lower demo_question)) (processed_papers tie_processor) =
     [\<lparr>filename = ''z.pdf'', relevance_score = 3, content = ''xyy''\<rparr>,
      \<lparr>filename = ''x.pdf'', relevance_score = 6, content = ''XYY syndrome''\<rparr>,
      \<lparr>filename = ''y.pdf'', relevance_score = 3, content = ''xyy''\<rparr>,
      \<lparr>filename = ''w.pdf'', relevance_score = 3, content = ''xyy''\<rparr>,
      \<lparr>filename = ''v.pdf'', relevance_score = 3, content = ''xyy''\<rparr>]"
  by code_simp

lemma tie_top:
  "top_papers tie_env tie_processor demo_question =
     [\<lparr>filename = ''x.pdf'', relevance_score = 6, content = ''XYY syndrome''\<rparr>,
      \<lparr>filename = ''z.pdf'', relevance_score = 3, content = ''xyy''\<rparr>,
      \<lparr>filename = ''y.pdf'', relevance_score = 3, content = ''xyy''\<rparr>]"
  by code_simp

lemma save_fields [simp]:
  "processed_papers (save_processed_papers env s) = processed_papers s"
  "vectorstore (save_processed_papers env s) = vectorstore s"
  "qa_chain (save_processed_papers env s) = qa_chain s"
  "collection (save_processed_papers env s) = collection s"
  by (simp_all add: save_processed_papers_def split: option.splits)

lemma init_fields [simp]:
  "processed_papers (initialize_vectorstore env k s) = processed_papers s"
  "collection (initialize_vectorstore env k s) = collection s"
  "vectorstore (initialize_vectorstore env k s) = (chroma_init env k = None \<and> qa_chain_init env k = None)"
  by (simp_all add: initialize_vectorstore_def split: option.splits)

lemma process_pdf_vectorstore [simp]:
  "vectorstore (fst (process_pdf env f s)) = vectorstore s"
  by (simp add: process_pdf_def Let_def split: sum.splits option.splits)

lemma process_pdf_ledger:
  "processed_papers (fst (process_pdf env f s)) =
     (if process_ok env (vectorstore s) f
      then AList.update f
             \<lparr>processed_at = now_isoformat env,
              chunks_processed = length (indexed_texts env f),
              total_characters = total_chars (indexed_texts env f),
              status = ''processed''\<rparr>
             (processed_papers s)
      else processed_papers s)"
  by (simp add: process_pdf_def process_ok_def file_texts_def indexed_texts_def Let_def
           split: sum.splits option.splits)

lemma process_pdf_collection:
  "collection (fst (process_pdf env f s)) =
     collection s @ (if vectorstore s \<and> process_ok env True f then indexed_texts env f else [])"
  by (simp add: process_pdf_def process_ok_def file_texts_def indexed_texts_def Let_def
           split: sum.splits option.splits)

lemma process_pdf_result:
  "if process_ok env (vectorstore s) f
   then (\<exists>c k. snd (process_pdf env f s) = ProcessSuccess f c k)
   else (\<exists>e. snd (process_pdf env f s) = ProcessError f e)"
  by (simp add: process_pdf_def process_ok_def file_texts_def Let_def
           split: sum.splits option.splits)

lemma process_files_Cons:
  "process_files env (f # fs) s =
     (fst (process_files env fs (fst (process_pdf env f s))),
      snd (process_pdf env f s) # snd (process_files env fs (fst (process_pdf env f s))))"
  by (simp add: case_prod_unfold)

lemma process_files_vectorstore [simp]:
  "vectorstore (fst (process_files env fs s)) = vectorstore s"
  by (induction fs arbitrary: s) (simp_all add: process_files_Cons del: process_files.simps(2))

lemma process_files_keys:
  "fst ` set (processed_papers (fst (process_files env fs s)))
     = fst ` set (processed_papers s) \<union> {f \<in> set fs. process_ok env (vectorstore s) f}"
proof (induction fs arbitrary: s)
  case Nil
  show ?case by simp
next
  case (Cons f fs)
  show ?case
    unfolding process_files_Cons fst_conv Cons.IH
    by (auto simp: process_pdf_ledger dom_update)
qed

lemma process_files_distinct:
  "distinct (map fst (processed_papers s)) \<Longrightarrow>
     distinct (map fst (processed_papers (fst (process_files env fs s))))"
proof (induction fs arbitrary: s)
  case Nil
  then show ?case by simp
next
  case (Cons f fs)
  from Cons.prems have "distinct (map fst (processed_papers (fst (process_pdf env f s))))"
    by (simp add: process_pdf_ledger distinct_update)
  then show ?case
    unfolding process_files_Cons fst_conv by (rule Cons.IH)
qed

lemma update_subset: "set (AList.update k v al) \<subseteq> insert (k, v) (set al)"
  by (induction al) auto

lemma process_files_status:
  "\<forall>item \<in> set (processed_papers s). status (snd item) = ''processed'' \<Longrightarrow>
     \<forall>item \<in> set (processed_papers (fst (process_files env fs s))). status (snd item) = ''processed''"
proof (induction fs arbitrary: s)
  case Nil
  then show ?case by simp
next
  case (Cons f fs)
  have "\<forall>item \<in> set (processed_papers (fst (process_pdf env f s))). status (snd item) = ''processed''"
  proof (cases "process_ok env (vectorstore s) f")
    case True
    show ?thesis
    proof
      fix item
      assume "item \<in> set (processed_papers (fst (process_pdf env f s)))"
      with True update_subset have "item = (f, \<lparr>processed_at = now_isoformat env,
              chunks_processed = length (indexed_texts env f),
              total_characters = total_chars (indexed_texts env f),
              status = ''processed''\<rparr>) \<or> item \<in> set (processed_papers s)"
        by (fastforce simp: process_pdf_ledger)
      with Cons.prems show "status (snd item) = ''processed''" by auto
    qed
  next
    case False
    with Cons.prems show ?thesis by (simp add: process_pdf_ledger)
  qed
  then show ?case
    unfolding process_files_Cons fst_conv by (rule Cons.IH)
qed

lemma process_files_collection:
  "collection (fst (process_files env fs s))
     = collection s @ (if vectorstore s
                       then concat (map (indexed_texts env) (filter (process_ok env True) fs))
                       else [])"
proof (induction fs arbitrary: s)
  case Nil
  show ?case by simp
next
  case (Cons f fs)
  show ?case
    unfolding process_files_Cons fst_conv Cons.IH
    by (simp add: process_pdf_collection)
qed

lemma process_files_results:
  "list_all2 (\<lambda>f r. if process_ok env (vectorstore s) f
                     then (\<exists>c k. r = ProcessSuccess f c k)
                     else (\<exists>e. r = ProcessError f e))
     fs (snd (process_files env fs s))"
proof (induction fs arbitrary: s)
  case Nil
  show ?case by simp
next
  case (Cons f fs)
  from Cons.IH[of "fst (process_pdf env f s)"] process_pdf_result[of env s f]
  show ?case
    unfolding process_files_Cons snd_conv by simp
qed

lemma demo_reprocess_result:
  "snd (reprocess_all_papers demo_env demo_processor) =
     ReprocessCompleted 6
       [ProcessSuccess ''b.pdf'' 1 12, ProcessError ''bad.pdf'' ''EOF marker not found'',
        ProcessSuccess ''a.pdf'' 1 12, ProcessSuccess ''d.pdf'' 1 15,
        ProcessSuccess ''e.pdf'' 1 3, ProcessSuccess ''c.pdf'' 2 23]"
  by code_simp

lemma demo_reprocess_keys:
  "map fst (processed_papers (fst (reprocess_all_papers demo_env demo_processor)))
     = [''b.pdf'', ''a.pdf'', ''d.pdf'', ''e.pdf'', ''c.pdf'']"
  by code_simp

lemma demo_reprocess_collection:
  "map page_content (collection (fst (reprocess_all_papers demo_env demo_processor)))
     = [''stale chunk'', ''XYY syndrome'', ''xyy SYNDROME'', ''cooking recipes'', ''xyy'',
        ''xyy xyy'', ''syndrome trisomy'']"
  by code_simp

lemma stale_reprocess_result:
  "snd (reprocess_all_papers demo_env demo_stale) =
     ReprocessCompleted 6
       [ProcessSuccess ''b.pdf'' 1 12, ProcessError ''bad.pdf'' ''EOF marker not found'',
        ProcessSuccess ''a.pdf'' 1 12, ProcessSuccess ''d.pdf'' 1 15,
        ProcessSuccess ''e.pdf'' 1 3, ProcessSuccess ''c.pdf'' 2 23]"
  by code_simp

lemma demo_indexed_texts:
  "map page_content (concat (map (indexed_texts demo_env) (filter (process_ok demo_env True) (pdf_files demo_env))))
     = [''XYY syndrome'', ''xyy SYNDROME'', ''cooking recipes'', ''xyy'', ''xyy xyy'', ''syndrome trisomy'']"
  by code_simp

section \<open>Claims\<close>

subsection \<open>C1: a failure inside \<^verbatim>\<open>process_pdf\<close>\<close>

text \<open>
  C1, as amended. When the loader raises, or the splitter raises, or the vector store is
  set and \<^verbatim>\<open>add_documents\<close> raises, with message \<open>e\<close>, \<^verbatim>\<open>process_pdf\<close> returns the failure
  dictionary (status \<^verbatim>\<open>error\<close>, the file name, \<open>e\<close>) and hands the processor back as it
  was: the ledger and the ledger file are untouched, so no record with status
  \<^verbatim>\<open>error\<close> is written (and an \<^verbatim>\<open>add_documents\<close> that raises is taken to store nothing). The
  function is total: nothing is raised to the caller.
\<close>

theorem process_pdf_failure:
  assumes "pdf_load env name = Inl e
     \<or> (\<exists>docs. pdf_load env name = Inr docs \<and> split_documents env docs = Inl e)
     \<or> (\<exists>docs chunks. pdf_load env name = Inr docs \<and> split_documents env docs = Inr chunks
           \<and> vectorstore s \<and> add_documents env (add_metadata name chunks) = Some e)"
  shows "process_pdf env name s = (s, ProcessError name e)"
  using assms by (auto simp: process_pdf_def Let_def)

text \<open>The loader rejects \<^verbatim>\<open>bad.pdf\<close>; the fresh processor is returned unchanged with the
  failure dictionary.\<close>

theorem process_pdf_failure_witness:
  "pdf_load demo_env ''bad.pdf'' = Inl ''EOF marker not found''
   \<and> process_pdf demo_env ''bad.pdf'' demo_empty
       = (demo_empty, ProcessError ''bad.pdf'' ''EOF marker not found'')"
proof -
  have h: "pdf_load demo_env ''bad.pdf'' = Inl ''EOF marker not found''"
    by (simp add: demo_env_def)
  from h process_pdf_failure[of demo_env "''bad.pdf''" "''EOF marker not found''" demo_empty]
  show ?thesis by simp
qed

text \<open>C1 as stated asks for a ledger record with status \<^verbatim>\<open>error\<close> for the failing file.
  After the failed run on \<^verbatim>\<open>bad.pdf\<close> the ledger of the fresh processor is still empty.\<close>

theorem process_pdf_failure_counterexample:
  "pdf_load demo_env ''bad.pdf'' = Inl ''EOF marker not found''
   \<and> processed_papers (fst (process_pdf demo_env ''bad.pdf'' demo_empty)) = []"
  by (simp add: process_pdf_def demo_env_def demo_empty_def)

subsection \<open>C2: a retrieval chain that found nothing\<close>




subsection \<open>C3: the relevance score and the candidates\<close>

text \<open>
  C3. In the keyword search every entry of \<^verbatim>\<open>relevant_papers\<close> belongs to a ledger record
  with status \<^verbatim>\<open>processed\<close> whose file the loader read, and its score is the score of the
  specification: the sum over the lower-cased, white-space-split terms of the question of
  the term's occurrence count in the lower-cased text, plus twice the occurrence count of
  each term of the fixed vocabulary; the score is strictly positive. Conversely every
  such record whose file exists, loads and scores above zero has an entry. The
  candidates are the first three of the entries sorted by descending score: the sorted
  list has the same entries, is descending, and at most three are taken.
\<close>

theorem keyword_relevance_and_candidates:
  "(\<forall>p \<in> set (search_papers env (str_split (str_lower q)) (processed_papers s)).
      0 < relevance_score p \<and>
      (\<exists>info docs. (filename p, info) \<in> set (processed_papers s) \<and> status info = ''processed'' \<and>
         pdf_load env (filename p) = Inr docs \<and>
         relevance_score p =
           spec_relevance_score xyy_terms (str_split (str_lower q))
             (str_lower (str_join newline (map page_content docs)))))
   \<and> (\<forall>item \<in> set (processed_papers s). \<forall>docs.
         status (snd item) = ''processed'' \<and> path_exists env (fst item) \<and>
         pdf_load env (fst item) = Inr docs \<and>
         0 < spec_relevance_score xyy_terms (str_split (str_lower q))
               (str_lower (str_join newline (map page_content docs)))
         \<longrightarrow> fst item \<in> filename ` set (search_papers env (str_split (str_lower q)) (processed_papers s)))
   \<and> top_papers env s q =
         take 3 (sort_by_relevance (search_papers env (str_split (str_lower q)) (processed_papers s)))
   \<and> mset (sort_by_relevance (search_papers env (str_split (str_lower q)) (processed_papers s)))
         = mset (search_papers env (str_split (str_lower q)) (processed_papers s))
   \<and> sorted_wrt (\<lambda>a b. relevance_score b \<le> relevance_score a)
         (sort_by_relevance (search_papers env (str_split (str_lower q)) (processed_papers s)))
   \<and> length (top_papers env s q) \<le> 3"
proof -
  let ?terms = "str_split (str_lower q)"
  let ?d = "processed_papers s"
  let ?rel = "search_papers env ?terms ?d"
  have sound: "\<forall>p \<in> set ?rel.
      0 < relevance_score p \<and>
      (\<exists>info docs. (filename p, info) \<in> set ?d \<and> status info = ''processed'' \<and>
         pdf_load env (filename p) = Inr docs \<and>
         relevance_score p =
           spec_relevance_score xyy_terms ?terms (str_lower (str_join newline (map page_content docs))))"
  proof
    fix p assume "p \<in> set ?rel"
    then obtain name info where item: "(name, info) \<in> set ?d"
      and sc: "score_paper env ?terms (name, info) = Some p"
      by (auto simp: search_papers_set)
    from sc obtain docs where "status info = ''processed''" "pdf_load env name = Inr docs"
      "0 < relevance ?terms (str_join newline (map page_content docs))"
      "filename p = name"
      "relevance_score p = relevance ?terms (str_join newline (map page_content docs))"
      by (auto simp: score_paper_Some)
    with item show "0 < relevance_score p \<and>
      (\<exists>info docs. (filename p, info) \<in> set ?d \<and> status info = ''processed'' \<and>
         pdf_load env (filename p) = Inr docs \<and>
         relevance_score p =
           spec_relevance_score xyy_terms ?terms (str_lower (str_join newline (map page_content docs))))"
      by (auto simp: relevance_spec)
  qed
  have complete: "\<forall>item \<in> set ?d. \<forall>docs.
         status (snd item) = ''processed'' \<and> path_exists env (fst item) \<and>
         pdf_load env (fst item) = Inr docs \<and>
         0 < spec_relevance_score xyy_terms ?terms (str_lower (str_join newline (map page_content docs)))
         \<longrightarrow> fst item \<in> filename ` set ?rel"
  proof (intro ballI allI impI)
    fix item docs
    assume item: "item \<in> set ?d"
      and h: "status (snd item) = ''processed'' \<and> path_exists env (fst item) \<and>
         pdf_load env (fst item) = Inr docs \<and>
         0 < spec_relevance_score xyy_terms ?terms (str_lower (str_join newline (map page_content docs)))"
    obtain name info where ni: "item = (name, info)" by (cases item)
    from h ni obtain p where sc: "score_paper env ?terms (name, info) = Some p" and fp: "filename p = name"
      by (auto simp: score_paper_Some relevance_spec)
    from sc item ni have "p \<in> set ?rel" by (auto simp: search_papers_set)
    with fp ni show "fst item \<in> filename ` set ?rel" by force
  qed
  have len: "length (top_papers env s q) \<le> 3"
    by (simp add: top_papers_def)
  have ms: "mset (sort_by_relevance ?rel) = mset ?rel"
    by (simp add: sort_by_relevance_def)
  from sound complete len ms show ?thesis
    using sort_by_relevance_sorted[of ?rel] by (simp add: top_papers_def)
qed

text \<open>On the sample corpus \<^verbatim>\<open>c.pdf\<close> scores 12 (the term \<^verbatim>\<open>is\<close> occurs in \<^verbatim>\<open>trisomy\<close>),
  four papers score above zero and three are kept.\<close>

theorem keyword_relevance_and_candidates_witness:
  "\<lparr>filename = ''c.pdf'', relevance_score = 12,
     content = ''xyy xyy'' @ newline @ ''syndrome trisomy''\<rparr>
     \<in> set (search_papers demo_env (str_split (str_lower demo_question)) (processed_papers demo_processor))
   \<and> spec_relevance_score xyy_terms [''what'', ''is'', ''xyy'', ''syndrome'']
        (str_lower (''xyy xyy'' @ newline @ ''syndrome trisomy'')) = 12
   \<and> map filename (top_papers demo_env demo_processor demo_question) = [''c.pdf'', ''b.pdf'', ''a.pdf'']
   \<and> length (top_papers demo_env demo_processor demo_question) \<le> 3"
proof -
  let ?p = "\<lparr>filename = ''c.pdf'', relevance_score = 12,
     content = ''xyy xyy'' @ newline @ ''syndrome trisomy''\<rparr>"
  let ?rel = "search_papers demo_env (str_split (str_lower demo_question)) (processed_papers demo_processor)"
  have mem: "?p \<in> set ?rel"
    by (simp add: demo_terms demo_processor_def demo_relevant)
  note inst = keyword_relevance_and_candidates[of demo_env demo_question demo_processor]
  from inst mem obtain info docs where
    ld: "pdf_load demo_env (filename ?p) = Inr docs"
    and sc: "relevance_score ?p = spec_relevance_score xyy_terms (str_split (str_lower demo_question))
               (str_lower (str_join newline (map page_content docs)))"
    by blast
  from ld have docs: "docs = [demo_doc ''xyy xyy'', demo_doc ''syndrome trisomy'']"
    by (simp add: demo_env_def)
  from sc have score: "spec_relevance_score xyy_terms [''what'', ''is'', ''xyy'', ''syndrome'']
        (str_lower (''xyy xyy'' @ newline @ ''syndrome trisomy'')) = 12"
    by (simp add: docs demo_terms demo_doc_def)
  from inst have "length (top_papers demo_env demo_processor demo_question) \<le> 3"
    by blast
  with mem score show ?thesis by (simp add: demo_top)
qed

subsection \<open>C4: the summary of a paper the ledger does not know\<close>

text \<open>
  C4, as amended. For a file name that is not a key of the ledger \<^verbatim>\<open>get_paper_summary\<close>
  returns a dictionary with the summary text \<^verbatim>\<open>Paper not found or not processed yet.\<close> and
  no sources, and the route \<^verbatim>\<open>GET /paper/{filename}/summary\<close> sends it as the body of a
  normal response to every caller with a valid token: no error status is raised.
\<close>

theorem summary_of_unknown_paper:
  assumes "name \<notin> fst ` set (processed_papers s)"
  shows "get_paper_summary env s name =
           \<lparr>summary_filename = name, summary = ''Paper not found or not processed yet.'',
            summary_sources = []\<rparr>
       \<and> (credentials = admin_token env \<or> credentials = public_token env \<longrightarrow>
            summary_route env (Inr s) credentials name =
              Response200 \<lparr>summary_filename = name,
                           summary = ''Paper not found or not processed yet.'',
                           summary_sources = []\<rparr>)"
  using assms by (auto simp: get_paper_summary_def summary_route_def)

theorem summary_of_unknown_paper_witness:
  "''missing.pdf'' \<notin> fst ` set (processed_papers demo_processor)
   \<and> get_paper_summary demo_env demo_processor ''missing.pdf''
       = \<lparr>summary_filename = ''missing.pdf'',
          summary = ''Paper not found or not processed yet.'',
          summary_sources = []\<rparr>
   \<and> summary_route demo_env (Inr demo_processor) (admin_token demo_env) ''missing.pdf''
       = Response200 \<lparr>summary_filename = ''missing.pdf'',
                      summary = ''Paper not found or not processed yet.'',
                      summary_sources = []\<rparr>"
proof -
  have h: "''missing.pdf'' \<notin> fst ` set (processed_papers demo_processor)"
    by (simp add: demo_processor_def demo_ledger_def)
  from h summary_of_unknown_paper[OF h, of demo_env "admin_token demo_env"]
  show ?thesis by simp
qed

text \<open>C4 as stated asks for a failure with 404 semantics. The route answers with a normal
  response for \<^verbatim>\<open>missing.pdf\<close>, which is in no ledger record.\<close>

theorem summary_of_unknown_paper_counterexample:
  "''missing.pdf'' \<notin> fst ` set (processed_papers demo_processor)
   \<and> summary_route demo_env (Inr demo_processor) ''public123'' ''missing.pdf''
       = Response200 \<lparr>summary_filename = ''missing.pdf'',
                      summary = ''Paper not found or not processed yet.'',
                      summary_sources = []\<rparr>"
  by (simp add: summary_route_def get_paper_summary_def demo_env_def demo_processor_def demo_ledger_def)

subsection \<open>C5: after \<^verbatim>\<open>reprocess_all_papers\<close>\<close>

text \<open>
  C5, as amended. When \<^verbatim>\<open>reprocess_all_papers\<close> returns with status \<^verbatim>\<open>completed\<close>, the keys
  of the ledger are exactly the PDF files of the upload directory whose processing
  succeeded, each key once and each record with status \<^verbatim>\<open>processed\<close>; a file whose
  processing failed has no record, only its error in the result list, which has one entry
  per file in the order of the listing. When the vector store was set at the time of the
  call, so that the collection was deleted, the collection holds exactly the chunks added
  during the call (none if the vector store could not be rebuilt): nothing from before
  the call is left.
\<close>

theorem reprocess_ledger_and_index:
  assumes "reprocess_all_papers env s = (s', ReprocessCompleted n results)"
  shows "fst ` set (processed_papers s')
           = {f \<in> set (pdf_files env).
                process_ok env (chroma_init env 0 = None \<and> qa_chain_init env 0 = None) f}
       \<and> distinct (map fst (processed_papers s'))
       \<and> (\<forall>item \<in> set (processed_papers s'). status (snd item) = ''processed'')
       \<and> n = length (pdf_files env)
       \<and> list_all2 (\<lambda>f r. if process_ok env (chroma_init env 0 = None \<and> qa_chain_init env 0 = None) f
                           then (\<exists>c k. r = ProcessSuccess f c k)
                           else (\<exists>e. r = ProcessError f e))
            (pdf_files env) results
       \<and> (vectorstore s \<longrightarrow>
            collection s' =
              (if chroma_init env 0 = None \<and> qa_chain_init env 0 = None
               then concat (map (indexed_texts env) (filter (process_ok env True) (pdf_files env)))
               else []))"
proof -
  let ?s1 = "if vectorstore s then s\<lparr>collection := []\<rparr> else s"
  let ?s3 = "initialize_vectorstore env 0 (save_processed_papers env (?s1\<lparr>processed_papers := []\<rparr>))"
  let ?s4 = "fst (process_files env (pdf_files env) ?s3)"
  let ?vs = "chroma_init env 0 = None \<and> qa_chain_init env 0 = None"
  from assms have del: "(if vectorstore s then delete_collection env else None) = None"
    by (auto simp: reprocess_all_papers_def split: option.splits)
  from assms del have s': "s' = (if \<not> vectorstore ?s4 then initialize_vectorstore env 1 ?s4 else ?s4)"
    and n: "n = length (pdf_files env)"
    and res: "results = snd (process_files env (pdf_files env) ?s3)"
    by (simp_all add: reprocess_all_papers_def Let_def case_prod_unfold)
  have pp: "processed_papers s' = processed_papers ?s4"
    and col: "collection s' = collection ?s4"
    by (simp_all add: s')
  have vs3: "vectorstore ?s3 = ?vs" by simp
  have pp3: "processed_papers ?s3 = []" by simp
  have keys: "fst ` set (processed_papers s') = {f \<in> set (pdf_files env). process_ok env ?vs f}"
    unfolding pp process_files_keys vs3 pp3 by simp
  have dist: "distinct (map fst (processed_papers s'))"
    unfolding pp by (rule process_files_distinct) (simp add: pp3)
  have stat: "\<forall>item \<in> set (processed_papers s'). status (snd item) = ''processed''"
    unfolding pp by (rule process_files_status) (simp add: pp3)
  have rs: "list_all2 (\<lambda>f r. if process_ok env ?vs f
                           then (\<exists>c k. r = ProcessSuccess f c k)
                           else (\<exists>e. r = ProcessError f e))
            (pdf_files env) results"
    using process_files_results[of env ?s3 "pdf_files env"]
    unfolding res vs3 .
  have c3: "vectorstore s \<Longrightarrow> collection ?s3 = []" by simp
  have coll: "vectorstore s \<Longrightarrow> collection s' =
              (if ?vs then concat (map (indexed_texts env) (filter (process_ok env True) (pdf_files env)))
               else [])"
    unfolding col process_files_collection vs3 using c3 by simp
  from keys dist stat n rs coll show ?thesis by blast
qed

text \<open>On the sample corpus, starting from a vector store that holds a chunk of an earlier
  run: five of the six files get a record and the old chunk is gone.\<close>

theorem reprocess_ledger_and_index_witness:
  "snd (reprocess_all_papers demo_env demo_stale) =
     ReprocessCompleted 6
       [ProcessSuccess ''b.pdf'' 1 12, ProcessError ''bad.pdf'' ''EOF marker not found'',
        ProcessSuccess ''a.pdf'' 1 12, ProcessSuccess ''d.pdf'' 1 15,
        ProcessSuccess ''e.pdf'' 1 3, ProcessSuccess ''c.pdf'' 2 23]
   \<and> vectorstore demo_stale
   \<and> distinct (map fst (processed_papers (fst (reprocess_all_papers demo_env demo_stale))))
   \<and> fst ` set (processed_papers (fst (reprocess_all_papers demo_env demo_stale)))
       = {f \<in> set (pdf_files demo_env). process_ok demo_env True f}
   \<and> map page_content (collection (fst (reprocess_all_papers demo_env demo_stale)))
       = [''XYY syndrome'', ''xyy SYNDROME'', ''cooking recipes'', ''xyy'', ''xyy xyy'', ''syndrome trisomy'']"
proof -
  let ?r = "ReprocessCompleted 6
       [ProcessSuccess ''b.pdf'' 1 12, ProcessError ''bad.pdf'' ''EOF marker not found'',
        ProcessSuccess ''a.pdf'' 1 12, ProcessSuccess ''d.pdf'' 1 15,
        ProcessSuccess ''e.pdf'' 1 3, ProcessSuccess ''c.pdf'' 2 23]"
  have h: "reprocess_all_papers demo_env demo_stale
             = (fst (reprocess_all_papers demo_env demo_stale), ?r)"
    using stale_reprocess_result by (metis prod.collapse)
  have vs: "vectorstore demo_stale" by (simp add: demo_stale_def)
  have ini: "chroma_init demo_env 0 = None \<and> qa_chain_init demo_env 0 = None"
    by (simp add: demo_env_def)
  from reprocess_ledger_and_index[OF h] vs ini
  have "distinct (map fst (processed_papers (fst (reprocess_all_papers demo_env demo_stale))))"
    and "fst ` set (processed_papers (fst (reprocess_all_papers demo_env demo_stale)))
       = {f \<in> set (pdf_files demo_env). process_ok demo_env True f}"
    and "collection (fst (reprocess_all_papers demo_env demo_stale))
       = concat (map (indexed_texts demo_env) (filter (process_ok demo_env True) (pdf_files demo_env)))"
    by simp_all
  with stale_reprocess_result vs show ?thesis
    by (simp add: demo_indexed_texts)
qed

text \<open>C5 as stated promises a record for every file, also the failing ones, and an
  index without old entries. Starting from the processor without a vector store, the run
  completes, \<^verbatim>\<open>bad.pdf\<close> is in the upload directory and has no record, and the chunk that
  was in the collection before the call is still there, since nothing deleted it.\<close>

theorem reprocess_counterexample:
  "snd (reprocess_all_papers demo_env demo_processor) =
     ReprocessCompleted 6
       [ProcessSuccess ''b.pdf'' 1 12, ProcessError ''bad.pdf'' ''EOF marker not found'',
        ProcessSuccess ''a.pdf'' 1 12, ProcessSuccess ''d.pdf'' 1 15,
        ProcessSuccess ''e.pdf'' 1 3, ProcessSuccess ''c.pdf'' 2 23]
   \<and> ''bad.pdf'' \<in> set (pdf_files demo_env)
   \<and> ''bad.pdf'' \<notin> set (map fst (processed_papers (fst (reprocess_all_papers demo_env demo_processor))))
   \<and> ''stale chunk'' \<in> set (map page_content (collection demo_processor))
   \<and> ''stale chunk'' \<in> set (map page_content (collection (fst (reprocess_all_papers demo_env demo_processor))))"
  unfolding demo_reprocess_result demo_reprocess_keys demo_reprocess_collection
  by (simp add: demo_env_def demo_processor_def demo_doc_def)

subsection \<open>C6: writing the ledger file\<close>

text \<open>
  C6, as amended. \<^verbatim>\<open>_save_processed_papers\<close> rewrites the ledger file in place. When the
  file opens, a run that completes leaves the dump of the whole current mapping, which
  \<^verbatim>\<open>_load_processed_papers\<close> reads back whenever the codec round-trips that mapping; a
  process that dies after \<open>k\<close> characters leaves the first \<open>k\<close> characters of the new
  text and nothing of the old one, and when it dies before the first character the file
  is empty and loads as the empty mapping. There is no temporary file and no rename.
\<close>

theorem save_rewrites_in_place:
  assumes "open_write env = None"
  shows "ledger_file (save_processed_papers env s) = Some (json_dumps env (processed_papers s))
       \<and> crash_in_save env k s = Some (take k (json_dumps env (processed_papers s)))
       \<and> load_processed_papers env (crash_in_save env 0 s) = []
       \<and> (json_dumps env (processed_papers s) \<noteq> []
            \<and> json_decode env (json_dumps env (processed_papers s)) = Inr (processed_papers s)
          \<longrightarrow> load_processed_papers env (ledger_file (save_processed_papers env s))
                = processed_papers s)"
  using assms
  by (simp add: save_processed_papers_def crash_in_save_def load_processed_papers_def json_load_def)

theorem save_rewrites_in_place_witness:
  "open_write demo_env = None
   \<and> ledger_file (save_processed_papers demo_env demo_processor) = Some (demo_dumps demo_ledger)
   \<and> crash_in_save demo_env 3 demo_processor = Some ''{b.''
   \<and> load_processed_papers demo_env (crash_in_save demo_env 0 demo_processor) = []
   \<and> load_processed_papers demo_env (ledger_file (save_processed_papers demo_env demo_processor))
       = demo_ledger"
proof -
  have h: "open_write demo_env = None" by (simp add: demo_env_def)
  have d: "json_dumps demo_env (processed_papers demo_processor) = demo_dumps demo_ledger"
    by (simp add: demo_env_def demo_processor_def)
  have t: "take 3 (demo_dumps demo_ledger) = ''{b.''"
    by (simp add: demo_dumps_def demo_ledger_def)
  have n: "demo_dumps demo_ledger \<noteq> []" by (simp add: demo_dumps_def)
  have r: "json_decode demo_env (demo_dumps demo_ledger) = Inr (processed_papers demo_processor)"
    by (simp add: demo_env_def demo_processor_def)
  from h d t n r
    save_rewrites_in_place[OF h, of demo_processor 3]
    save_rewrites_in_place[OF h, of demo_processor 0]
  show ?thesis by (simp add: demo_processor_def)
qed

text \<open>C6 as stated says that a crash during a write cannot damage records written
  earlier. The ledger file holds the six records of the sample corpus; a seventh is
  recorded and the process dies right after the file is opened for writing: what is
  loaded afterwards is the empty mapping.\<close>

theorem save_crash_counterexample:
  "load_processed_papers demo_env (ledger_file demo_processor) = demo_ledger
   \<and> demo_ledger \<noteq> []
   \<and> load_processed_papers demo_env
        (crash_in_save demo_env 0
           (demo_processor\<lparr>processed_papers := AList.update ''new.pdf'' demo_info demo_ledger\<rparr>)) = []"
  by (simp add: load_processed_papers_def json_load_def crash_in_save_def demo_env_def
        demo_processor_def demo_dumps_def demo_ledger_def)

subsection \<open>C7: the completion provider fails\<close>



subsection \<open>C8: equal scores\<close>

text \<open>
  C8. The descending sort of the keyword search is stable, and the candidates are cut from
  it in that order. For every score \<open>k\<close>: the entries with score \<open>k\<close> stand in the sorted
  list exactly as they stand in \<^verbatim>\<open>relevant_papers\<close>; the candidates with score \<open>k\<close> are a
  prefix of the entries with score \<open>k\<close>, so among tied papers the earliest of the ledger
  are the ones kept, in ledger order; the entries themselves follow the ledger's
  iteration order, hence the names of the candidates with score \<open>k\<close> are a subsequence of
  the ledger's keys. The candidates are in descending order of score, there are three of
  them or as many as there are entries, and no entry left out scores higher than a
  candidate.
\<close>

theorem stable_descending_candidates:
  "filter (\<lambda>p. relevance_score p = k)
       (sort_by_relevance (search_papers env (str_split (str_lower q)) (processed_papers s)))
     = filter (\<lambda>p. relevance_score p = k)
         (search_papers env (str_split (str_lower q)) (processed_papers s))
   \<and> prefix (filter (\<lambda>p. relevance_score p = k) (top_papers env s q))
        (filter (\<lambda>p. relevance_score p = k)
           (search_papers env (str_split (str_lower q)) (processed_papers s)))
   \<and> map filename (search_papers env (str_split (str_lower q)) (processed_papers s))
       = map fst (filter (\<lambda>item. score_paper env (str_split (str_lower q)) item \<noteq> None)
                    (processed_papers s))
   \<and> subseq (map filename (filter (\<lambda>p. relevance_score p = k) (top_papers env s q)))
        (map fst (processed_papers s))
   \<and> sorted_wrt (\<lambda>a b. relevance_score b \<le> relevance_score a) (top_papers env s q)
   \<and> length (top_papers env s q)
       = min 3 (length (search_papers env (str_split (str_lower q)) (processed_papers s)))
   \<and> (\<exists>rest. mset (search_papers env (str_split (str_lower q)) (processed_papers s))
                = mset (top_papers env s q) + mset rest
             \<and> (\<forall>p \<in> set (top_papers env s q). \<forall>r \<in> set rest.
                   relevance_score r \<le> relevance_score p))"
proof -
  let ?rel = "search_papers env (str_split (str_lower q)) (processed_papers s)"
  let ?sorted = "sort_by_relevance ?rel"
  let ?top = "top_papers env s q"
  let ?P = "\<lambda>p. relevance_score p = k"
  have top: "?top = take 3 ?sorted" by (simp add: top_papers_def)
  have A: "filter ?P ?sorted = filter ?P ?rel" by (rule sort_by_relevance_stable)
  have "prefix (take 3 ?sorted) ?sorted" by (rule take_is_prefix)
  then have "prefix (filter ?P ?top) (filter ?P ?sorted)"
    unfolding top by (rule filter_mono_prefix)
  then have B: "prefix (filter ?P ?top) (filter ?P ?rel)" by (simp only: A)
  have C: "map filename ?rel
       = map fst (filter (\<lambda>item. score_paper env (str_split (str_lower q)) item \<noteq> None)
                    (processed_papers s))"
    by (rule search_papers_names)
  from B have "subseq (filter ?P ?top) (filter ?P ?rel)" by (rule prefix_imp_subseq)
  then have "subseq (filter ?P ?top) ?rel"
    using subseq_filter_left subseq_order.order_trans by blast
  then have "subseq (map filename (filter ?P ?top)) (map filename ?rel)" by (rule subseq_map)
  moreover have "subseq (map filename ?rel) (map fst (processed_papers s))"
    by (simp add: C subseq_map)
  ultimately have D: "subseq (map filename (filter ?P ?top)) (map fst (processed_papers s))"
    using subseq_order.order_trans by blast
  have srt: "sorted_wrt (\<lambda>a b. relevance_score b \<le> relevance_score a) ?sorted"
    by (rule sort_by_relevance_sorted)
  have split: "?sorted = ?top @ drop 3 ?sorted" by (simp add: top)
  from srt have srt2: "sorted_wrt (\<lambda>a b. relevance_score b \<le> relevance_score a) (?top @ drop 3 ?sorted)"
    using split by simp
  then have E: "sorted_wrt (\<lambda>a b. relevance_score b \<le> relevance_score a) ?top"
    and cross: "\<forall>p \<in> set ?top. \<forall>r \<in> set (drop 3 ?sorted). relevance_score r \<le> relevance_score p"
    by (simp_all add: sorted_wrt_append)
  have len: "length ?sorted = length ?rel" by (simp add: sort_by_relevance_def)
  have F: "length ?top = min 3 (length ?rel)" by (simp add: top len min.commute)
  have "mset ?rel = mset ?sorted" by (simp add: sort_by_relevance_def)
  also have "\<dots> = mset ?top + mset (drop 3 ?sorted)"
    by (metis split mset_append)
  finally have "mset ?rel = mset ?top + mset (drop 3 ?sorted)" .
  with cross have G: "\<exists>rest. mset ?rel = mset ?top + mset rest
             \<and> (\<forall>p \<in> set ?top. \<forall>r \<in> set rest. relevance_score r \<le> relevance_score p)"
    by blast
  from A B C D E F G show ?thesis by blast
qed

text \<open>On the second corpus the scores in ledger order are 3, 6, 3, 3, 3: the candidates
  are \<^verbatim>\<open>x.pdf\<close>, then \<^verbatim>\<open>z.pdf\<close> and \<^verbatim>\<open>y.pdf\<close>, the two earliest of the four tied papers.\<close>

theorem stable_descending_candidates_witness:
  "map filename (search_papers tie_env (str_split (str_lower demo_question)) (processed_papers tie_processor))
     = [''z.pdf'', ''x.pdf'', ''y.pdf'', ''w.pdf'', ''v.pdf'']
   \<and> map relevance_score (search_papers tie_env (str_split (str_lower demo_question)) (processed_papers tie_processor))
     = [3, 6, 3, 3, 3]
   \<and> map filename (top_papers tie_env tie_processor demo_question) = [''x.pdf'', ''z.pdf'', ''y.pdf'']
   \<and> prefix (map filename (filter (\<lambda>p. relevance_score p = 3) (top_papers tie_env tie_processor demo_question)))
        [''z.pdf'', ''y.pdf'', ''w.pdf'', ''v.pdf'']
   \<and> subseq [''z.pdf'', ''y.pdf''] (map fst (processed_papers tie_processor))"
proof -
  note inst = stable_descending_candidates[of 3 tie_env demo_question tie_processor]
  from inst have "prefix (filter (\<lambda>p. relevance_score p = 3) (top_papers tie_env tie_processor demo_question))
        (filter (\<lambda>p. relevance_score p = 3)
           (search_papers tie_env (str_split (str_lower demo_question)) (processed_papers tie_processor)))"
    by blast
  then have "prefix (map filename (filter (\<lambda>p. relevance_score p = 3) (top_papers tie_env tie_processor demo_question)))
        (map filename (filter (\<lambda>p. relevance_score p = 3)
           (search_papers tie_env (str_split (str_lower demo_question)) (processed_papers tie_processor))))"
    by (rule map_mono_prefix)
  then have p: "prefix (map filename (filter (\<lambda>p. relevance_score p = 3) (top_papers tie_env tie_processor demo_question)))
        [''z.pdf'', ''y.pdf'', ''w.pdf'', ''v.pdf'']"
    by (simp add: tie_relevant)
  from inst have "subseq (map filename (filter (\<lambda>p. relevance_score p = 3) (top_papers tie_env tie_processor demo_question)))
        (map fst (processed_papers tie_processor))"
    by blast
  then have q: "subseq [''z.pdf'', ''y.pdf''] (map fst (processed_papers tie_processor))"
    by (simp add: tie_top)
  from p q show ?thesis by (simp add: tie_relevant tie_top)
qed

subsection \<open>C9: a paper that cannot be loaded during the keyword search\<close>

text \<open>
  C9. When the loader raises on a paper of the ledger, the keyword search finds exactly
  what it finds on the ledger without that paper: the papers before and after it are
  scored all the same, and the answer of the keyword search is the one for the ledger
  without it.
\<close>

theorem failing_paper_is_skipped:
  assumes "pdf_load env name = Inl e"
  shows "search_papers env terms (d1 @ (name, info) # d2) = search_papers env terms (d1 @ d2)
       \<and> (processed_papers s = d1 @ (name, info) # d2 \<longrightarrow>
            fallback_search env s q = fallback_search env (s\<lparr>processed_papers := d1 @ d2\<rparr>) q)"
proof -
  from assms have none: "score_paper env terms' (name, info) = None" for terms'
    by (simp add: score_paper_def)
  then have eq: "search_papers env terms' (d1 @ (name, info) # d2) = search_papers env terms' (d1 @ d2)" for terms'
    by (simp add: search_papers_append)
  then have "processed_papers s = d1 @ (name, info) # d2 \<Longrightarrow>
     top_papers env s q = top_papers env (s\<lparr>processed_papers := d1 @ d2\<rparr>) q"
    by (simp add: top_papers_def)
  then have "processed_papers s = d1 @ (name, info) # d2 \<Longrightarrow>
     fallback_search env s q = fallback_search env (s\<lparr>processed_papers := d1 @ d2\<rparr>) q"
    by (rule fallback_search_cong)
  with eq show ?thesis by blast
qed

theorem failing_paper_is_skipped_witness:
  "pdf_load demo_env ''bad.pdf'' = Inl ''EOF marker not found''
   \<and> search_papers demo_env [''what'', ''is'', ''xyy'', ''syndrome'']
        ([(''b.pdf'', demo_info)] @ (''bad.pdf'', demo_info)
           # [(''a.pdf'', demo_info), (''d.pdf'', demo_info), (''e.pdf'', demo_info), (''c.pdf'', demo_info)])
       = search_papers demo_env [''what'', ''is'', ''xyy'', ''syndrome'']
        ([(''b.pdf'', demo_info)]
           @ [(''a.pdf'', demo_info), (''d.pdf'', demo_info), (''e.pdf'', demo_info), (''c.pdf'', demo_info)])
   \<and> map filename (search_papers demo_env [''what'', ''is'', ''xyy'', ''syndrome''] demo_ledger)
       = [''b.pdf'', ''a.pdf'', ''e.pdf'', ''c.pdf'']"
proof -
  have h: "pdf_load demo_env ''bad.pdf'' = Inl ''EOF marker not found''"
    by (simp add: demo_env_def)
  from h failing_paper_is_skipped[OF h, of "[''what'', ''is'', ''xyy'', ''syndrome'']"
      "[(''b.pdf'', demo_info)]" demo_info
      "[(''a.pdf'', demo_info), (''d.pdf'', demo_info), (''e.pdf'', demo_info), (''c.pdf'', demo_info)]"]
  show ?thesis by (simp add: demo_relevant)
qed

subsection \<open>C10: the citations of the keyword search\<close>

text \<open>
  C10. When the keyword search has candidates and the completion call returns, the
  citation list has one entry per candidate, at most three, and the entry at position
  \<open>i\<close> carries the first 200 characters of the candidate's excerpt followed by three
  dots, the candidate's file name, the position \<open>i\<close> itself as \<^verbatim>\<open>chunk_id\<close>, and the links
  \<^verbatim>\<open>/paper/{filename}\<close> and \<^verbatim>\<open>/paper/{filename}/summary\<close>.
\<close>

theorem fallback_citations:
  assumes "openai_client env = None"
    and "top_papers env s q \<noteq> []"
    and "chat_completions_create env (papers_request (top_papers env s q) q) = Inr a"
  shows "length (sources (fallback_search env s q)) = length (top_papers env s q)
       \<and> length (sources (fallback_search env s q)) \<le> 3
       \<and> (\<forall>i < length (top_papers env s q).
            sources (fallback_search env s q) ! i =
              \<lparr>snippet = take 200 (content (top_papers env s q ! i)) @ ''...'',
               source = filename (top_papers env s q ! i),
               chunk_id = i,
               pdf_link = Some (''/paper/'' @ filename (top_papers env s q ! i)),
               summary_link = Some (''/paper/'' @ filename (top_papers env s q ! i) @ ''/summary'')\<rparr>)"
proof -
  let ?top = "top_papers env s q"
  from assms have src: "sources (fallback_search env s q)
      = map enhance_source (map paper_source (enumerate 0 ?top))"
    by (simp add: fallback_search_def)
  have len3: "length ?top \<le> 3" by (simp add: top_papers_def)
  have nth: "map enhance_source (map paper_source (enumerate 0 ?top)) ! i =
              \<lparr>snippet = take 200 (content (?top ! i)) @ ''...'',
               source = filename (?top ! i),
               chunk_id = i,
               pdf_link = Some (''/paper/'' @ filename (?top ! i)),
               summary_link = Some (''/paper/'' @ filename (?top ! i) @ ''/summary'')\<rparr>"
    if "i < length ?top" for i
    using that by (simp add: nth_enumerate_eq enhance_source_def paper_source_def)
  from src len3 nth show ?thesis by simp
qed

theorem fallback_citations_witness:
  "openai_client demo_env = None
   \<and> top_papers demo_env demo_processor demo_question \<noteq> []
   \<and> length (sources (fallback_search demo_env demo_processor demo_question)) = 3
   \<and> sources (fallback_search demo_env demo_processor demo_question) ! 1 =
       \<lparr>snippet = ''XYY syndrome...'', source = ''b.pdf'', chunk_id = 1,
        pdf_link = Some ''/paper/b.pdf'', summary_link = Some ''/paper/b.pdf/summary''\<rparr>"
proof -
  have h1: "openai_client demo_env = None" by (simp add: demo_env_def)
  have h2: "top_papers demo_env demo_processor demo_question \<noteq> []" by (simp add: demo_top)
  have h3: "chat_completions_create demo_env
              (papers_request (top_papers demo_env demo_processor demo_question) demo_question)
            = Inr ''model answer''"
    by (simp add: demo_env_def)
  from h1 h2 fallback_citations[OF h1 h2 h3]
  show ?thesis by (simp add: demo_top)
qed

end
